theory Spec2Isabelle
  imports Main
begin

section \<open>Values and failures of the runtime\<close>

text \<open>
  The patterns are written in TypeScript and compiled without strict property
  initialisation: a field declared \<^verbatim>\<open>private content: string;\<close> or
  \<^verbatim>\<open>private tool: Tool;\<close> with no initialiser holds \<^verbatim>\<open>undefined\<close> until
  it is first assigned. A field or a returned value that may be \<^verbatim>\<open>undefined\<close>
  is an \<open>option\<close>, with \<open>None\<close> for \<^verbatim>\<open>undefined\<close>.

  The only failure the source can produce is the one the runtime raises when a
  method is called on \<^verbatim>\<open>undefined\<close>, a \<^verbatim>\<open>TypeError\<close>; there is no
  \<^verbatim>\<open>throw\<close> in the source. \<open>Spec_NoToolSet\<close> is the explicit error the
  specification asks for; no path of the source raises it, and it is here only
  so that the specification's sentence can be stated and compared with the code.
\<close>

datatype error = TypeError | Spec_NoToolSet

text \<open>Console output, one entry per \<^verbatim>\<open>console.log\<close> call, oldest first.\<close>

type_synonym console = "string list"


section \<open>Memento: \<^verbatim>\<open>EditorState\<close>, \<^verbatim>\<open>Editor\<close>, \<^verbatim>\<open>EditorHistory\<close>\<close>

subsection \<open>\<^verbatim>\<open>EditorState\<close>\<close>

text \<open>Modelled from the spec: the class \<^verbatim>\<open>EditorState\<close> of \<^verbatim>\<open>./EditorState\<close>,
  which the sources import and do not contain. The specification describes it
  as an immutable value object capturing the content at creation time, whose
  \<^verbatim>\<open>getContent()\<close> returns the captured value and which exposes no mutator.
  The captured value is a \<^verbatim>\<open>string\<close> primitive (or \<^verbatim>\<open>undefined\<close>), which
  the language passes and stores by value.
\<close>

record EditorState =
  captured :: "string option"

text \<open>Modelled from the spec: the constructor, called as
  \<^verbatim>\<open>new EditorState(this.content)\<close> in \<^verbatim>\<open>Editor.createState\<close>; the snapshot
  captures the content it is given.\<close>

definition EditorState_new :: "string option \<Rightarrow> EditorState" where
  "EditorState_new c = \<lparr>captured = c\<rparr>"

text \<open>Modelled from the spec: \<^verbatim>\<open>EditorState.getContent()\<close>, called in
  \<^verbatim>\<open>Editor.restore\<close>; it returns the captured value.\<close>

definition EditorState_getContent :: "EditorState \<Rightarrow> string option" where
  "EditorState_getContent s = captured s"

subsection \<open>\<^verbatim>\<open>Editor\<close> (\<^verbatim>\<open>src/patterns/memento/Editor.ts\<close>)\<close>

text \<open>
  \<^verbatim>\<open>
  export class Editor {
    private content: string;
    public getContent() { return this.content; }
    public setContent(content: string) { this.content = content; }
    public createState(): EditorState { return new EditorState(this.content); }
    public restore(state: EditorState) { this.setContent(state.getContent()); }
  }
  \<close>
  The methods that assign to \<^verbatim>\<open>this\<close> take the editor and return the
  updated one; the two that only read it return their result.
  \<^verbatim>\<open>setContent\<close> takes any value the field can hold: \<^verbatim>\<open>restore\<close> passes
  it \<^verbatim>\<open>state.getContent()\<close>, which is \<^verbatim>\<open>undefined\<close> for a snapshot taken
  of a fresh editor.
\<close>

record Editor =
  content :: "string option"

definition Editor_new :: Editor where
  "Editor_new = \<lparr>content = None\<rparr>"

definition getContent :: "Editor \<Rightarrow> string option" where
  "getContent e = content e"

definition setContent :: "string option \<Rightarrow> Editor \<Rightarrow> Editor" where
  "setContent c e = e\<lparr>content := c\<rparr>"

definition createState :: "Editor \<Rightarrow> EditorState" where
  "createState e = EditorState_new (content e)"

definition restore :: "EditorState \<Rightarrow> Editor \<Rightarrow> Editor" where
  "restore state e = setContent (EditorState_getContent state) e"

text \<open>A sequence of mutating calls on one editor, run in order.\<close>

datatype editor_call = SetContent "string option" | Restore EditorState

fun editor_exec :: "editor_call \<Rightarrow> Editor \<Rightarrow> Editor" where
  "editor_exec (SetContent c) e = setContent c e"
| "editor_exec (Restore s) e = restore s e"

fun editor_run :: "editor_call list \<Rightarrow> Editor \<Rightarrow> Editor" where
  "editor_run [] e = e"
| "editor_run (c # cs) e = editor_run cs (editor_exec c e)"

subsection \<open>\<^verbatim>\<open>EditorHistory\<close>\<close>

text \<open>
  \<^verbatim>\<open>
  export class EditorHistory {
      public history = [];
      push(editor: EditorState) { this.history.push(editor); }
      pop() { return this.history.pop(); }
  }
  \<close>
  The array is a list with the most recent entry last. It is declared without
  an element type and it is public, so an entry is whatever was stored: a
  snapshot, or \<^verbatim>\<open>undefined\<close> (\<open>None\<close>). \<^verbatim>\<open>push\<close> stores the snapshot it
  is given; \<^verbatim>\<open>Array.prototype.push\<close> appends one element.
  \<^verbatim>\<open>Array.prototype.pop\<close> removes the last element and returns it as it is;
  on an empty array it returns \<^verbatim>\<open>undefined\<close> and leaves the array empty.
  \<^verbatim>\<open>pop\<close> has no check and no \<^verbatim>\<open>throw\<close>: it returns that value to the
  caller, here together with the updated history.
\<close>

record EditorHistory =
  history :: "EditorState option list"

definition EditorHistory_new :: EditorHistory where
  "EditorHistory_new = \<lparr>history = []\<rparr>"

definition push :: "EditorState \<Rightarrow> EditorHistory \<Rightarrow> EditorHistory" where
  "push editor h = h\<lparr>history := history h @ [Some editor]\<rparr>"

definition pop :: "EditorHistory \<Rightarrow> EditorState option \<times> EditorHistory" where
  "pop h =
     (if history h = [] then (None, h)
      else (last (history h), h\<lparr>history := butlast (history h)\<rparr>))"

text \<open>Pushing a list of snapshots in order, and \<open>n\<close> consecutive calls of \<^verbatim>\<open>pop()\<close>.\<close>

fun pushes :: "EditorState list \<Rightarrow> EditorHistory \<Rightarrow> EditorHistory" where
  "pushes [] h = h"
| "pushes (s # ss) h = pushes ss (push s h)"

fun pops :: "nat \<Rightarrow> EditorHistory \<Rightarrow> EditorState option list \<times> EditorHistory" where
  "pops 0 h = ([], h)"
| "pops (Suc n) h =
     (case pop h of (r, h') \<Rightarrow> (case pops n h' of (rs, h'') \<Rightarrow> (r # rs, h'')))"


section \<open>State: \<^verbatim>\<open>Tool\<close>, the two tools, \<^verbatim>\<open>Canvas\<close>\<close>

subsection \<open>\<^verbatim>\<open>Tool\<close>\<close>

text \<open>Modelled from the spec: the interface \<^verbatim>\<open>Tool\<close> of \<^verbatim>\<open>./tool\<close>, which the
  sources import and do not contain. Its two members are visible in the classes
  that implement it: \<^verbatim>\<open>mouseDown(): void\<close> and \<^verbatim>\<open>mouseUp(): void\<close>. A tool
  is the pair of its handlers; a handler acts on the world outside the canvas
  (\<open>'w\<close>: for the two tools of the repository, the console) and returns
  nothing. The specification has tools stateless and independent of the canvas
  that hosts them: a handler returns normally and does not reach the canvas, as
  the two tools of the repository do.
\<close>

record 'w Tool =
  tool_mouseDown :: "'w \<Rightarrow> 'w"
  tool_mouseUp :: "'w \<Rightarrow> 'w"

subsection \<open>\<^verbatim>\<open>EraserTool\<close> and \<^verbatim>\<open>SelectionTool\<close> (\<^verbatim>\<open>src/patterns/state/states\<close>)\<close>

definition EraserTool :: "console Tool" where
  "EraserTool =
     \<lparr>tool_mouseDown = (\<lambda>out. out @ [''eraser tool selected'']),
      tool_mouseUp = (\<lambda>out. out @ [''erasing from canvas''])\<rparr>"

definition SelectionTool :: "console Tool" where
  "SelectionTool =
     \<lparr>tool_mouseDown = (\<lambda>out. out @ [''selection tool selected'']),
      tool_mouseUp = (\<lambda>out. out @ [''draw box''])\<rparr>"

subsection \<open>\<^verbatim>\<open>Canvas\<close>\<close>

text \<open>
  \<^verbatim>\<open>
  export class Canvas {
    private tool: Tool;
    public setTool(tool: Tool) { this.tool = tool; }
    public mouseUp() { this.tool.mouseUp(); }
    public mouseDown() { this.tool.mouseDown(); }
  }
  \<close>
  A method of the canvas acts on the canvas and on the world its tool acts on,
  and either returns both or fails. \<^verbatim>\<open>this.tool.mouseUp()\<close> on a canvas whose
  \<^verbatim>\<open>tool\<close> is \<^verbatim>\<open>undefined\<close> raises \<^verbatim>\<open>TypeError\<close> before anything else
  happens.
\<close>

record 'w Canvas =
  tool :: "'w Tool option"

definition Canvas_new :: "'w Canvas" where
  "Canvas_new = \<lparr>tool = None\<rparr>"

fun setTool :: "'w Tool \<Rightarrow> 'w Canvas \<times> 'w \<Rightarrow> error + ('w Canvas \<times> 'w)" where
  "setTool t (c, w) = Inr (c\<lparr>tool := Some t\<rparr>, w)"

fun mouseUp :: "'w Canvas \<times> 'w \<Rightarrow> error + ('w Canvas \<times> 'w)" where
  "mouseUp (c, w) =
     (case tool c of
        None \<Rightarrow> Inl TypeError
      | Some t \<Rightarrow> Inr (c, tool_mouseUp t w))"

fun mouseDown :: "'w Canvas \<times> 'w \<Rightarrow> error + ('w Canvas \<times> 'w)" where
  "mouseDown (c, w) =
     (case tool c of
        None \<Rightarrow> Inl TypeError
      | Some t \<Rightarrow> Inr (c, tool_mouseDown t w))"

text \<open>
  A sequence of calls on one canvas, run in order; a failure ends the run, as
  the uncaught exception ends the caller.
\<close>

datatype 'w canvas_call = SetTool "'w Tool" | MouseUp | MouseDown

fun canvas_exec :: "'w canvas_call \<Rightarrow> 'w Canvas \<times> 'w \<Rightarrow> error + ('w Canvas \<times> 'w)" where
  "canvas_exec (SetTool t) s = setTool t s"
| "canvas_exec MouseUp s = mouseUp s"
| "canvas_exec MouseDown s = mouseDown s"

fun canvas_run :: "'w canvas_call list \<Rightarrow> 'w Canvas \<times> 'w \<Rightarrow> error + ('w Canvas \<times> 'w)" where
  "canvas_run [] s = Inr s"
| "canvas_run (k # ks) s =
     (case canvas_exec k s of Inl e \<Rightarrow> Inl e | Inr s' \<Rightarrow> canvas_run ks s')"

text \<open>
  \<^verbatim>\<open>StateTestImplementation.runImpl\<close>: the eraser is set and released and
  pressed, then the selection tool likewise.
\<close>

definition StateTestImplementation_runImpl :: "console \<Rightarrow> error + (console Canvas \<times> console)" where
  "StateTestImplementation_runImpl out =
     canvas_run [SetTool EraserTool, MouseUp, MouseDown,
                 SetTool SelectionTool, MouseUp, MouseDown] (Canvas_new, out)"


section \<open>Properties of the memento classes\<close>

lemma pop_push_eq: "pop (push s h) = (Some s, h)"
  by (simp add: pop_def push_def)

lemma history_pushes: "history (pushes ss h) = history h @ map Some ss"
  by (induction ss arbitrary: h) (simp_all add: push_def)

lemma pushes_snoc: "pushes (ss @ [s]) h = push s (pushes ss h)"
  by (induction ss arbitrary: h) simp_all

lemma pops_pushes: "pops (length ss) (pushes ss h) = (map Some (rev ss), h)"
proof (induction ss rule: rev_induct)
  case Nil
  show ?case by simp
next
  case (snoc s ss)
  have "pops (Suc (length ss)) (push s (pushes ss h)) = (Some s # map Some (rev ss), h)"
    by (simp add: pop_push_eq snoc.IH)
  then show ?case
    by (simp add: pushes_snoc)
qed

lemma editor_run_snoc: "editor_run (cs @ [c]) e = editor_exec c (editor_run cs e)"
  by (induction cs arbitrary: e) simp_all

text \<open>
  C8. On a freshly constructed editor, before any \<^verbatim>\<open>setContent\<close> or
  \<^verbatim>\<open>restore\<close>, \<^verbatim>\<open>getContent()\<close> returns \<^verbatim>\<open>undefined\<close>: the field is
  declared without an initialiser and there is no constructor.
\<close>

theorem getContent_fresh_editor: "getContent Editor_new = None"
  by (simp add: getContent_def Editor_new_def)

text \<open>
  C3. Snapshot independence: after \<^verbatim>\<open>setContent(a); s = createState();
  setContent(b)\<close> the snapshot \<open>s\<close> still answers \<open>a\<close>, while the editor
  answers \<open>b\<close>. The snapshot is built from the value of the field, not from the
  editor.
\<close>

theorem createState_independent:
  "(let e1 = setContent a e;
        s = createState e1;
        e2 = setContent b e1
    in EditorState_getContent s = a \<and> getContent e2 = b)"
  by (simp add: Let_def setContent_def createState_def getContent_def
      EditorState_new_def EditorState_getContent_def)

text \<open>
  C5. \<^verbatim>\<open>getContent()\<close> answers the value of the most recent
  \<^verbatim>\<open>setContent\<close> or \<^verbatim>\<open>restore\<close>, whatever calls came before it; in
  particular \<^verbatim>\<open>restore(s)\<close> overwrites the content with the value \<open>s\<close>
  captured, whatever the content was, as when a snapshot of \<^verbatim>\<open>"Muhammad"\<close>
  is restored over a later edit, or when the snapshot popped from the history
  of \<^verbatim>\<open>"Hello"\<close>, \<^verbatim>\<open>"I am"\<close>, \<^verbatim>\<open>"Muhammad"\<close> is restored into any
  editor.
\<close>

theorem getContent_most_recent:
  "getContent (editor_run (cs @ [SetContent c]) e) = c
   \<and> getContent (editor_run (cs @ [Restore s]) e) = EditorState_getContent s
   \<and> getContent (restore s e) = EditorState_getContent s
   \<and> getContent (restore (createState (setContent (Some ''Muhammad'') e))
                   (setContent (Some ''edited later'') e)) = Some ''Muhammad''
   \<and> map_option (\<lambda>popped. getContent (restore popped e'))
        (fst (pop (pushes [createState (setContent (Some ''Hello'') e),
                           createState (setContent (Some ''I am'') e),
                           createState (setContent (Some ''Muhammad'') e)]
                     EditorHistory_new)))
      = Some (Some ''Muhammad'')"
proof -
  have latest: "getContent (editor_run (cs @ [SetContent c]) e) = c"
    "getContent (editor_run (cs @ [Restore s]) e) = EditorState_getContent s"
    "getContent (restore s e) = EditorState_getContent s"
    by (simp_all add: editor_run_snoc restore_def setContent_def getContent_def)
  have dirty: "getContent (restore (createState (setContent (Some ''Muhammad'') e))
                   (setContent (Some ''edited later'') e)) = Some ''Muhammad''"
    by (simp add: restore_def setContent_def getContent_def
        createState_def EditorState_new_def EditorState_getContent_def)
  have top: "fst (pop (pushes [x, y, z] g)) = Some z" for x y z g
    by (simp add: pop_push_eq)
  have popped: "map_option (\<lambda>popped. getContent (restore popped e'))
        (fst (pop (pushes [createState (setContent (Some ''Hello'') e),
                           createState (setContent (Some ''I am'') e),
                           createState (setContent (Some ''Muhammad'') e)]
                     EditorHistory_new)))
      = Some (Some ''Muhammad'')"
    unfolding top
    by (simp add: restore_def setContent_def getContent_def
        createState_def EditorState_new_def EditorState_getContent_def)
  from latest dirty popped show ?thesis
    by (intro conjI)
qed

text \<open>
  C9. Round trip: \<^verbatim>\<open>e.restore(e.createState())\<close> leaves the editor as it was,
  and so its \<^verbatim>\<open>getContent()\<close>. This holds for every editor, also for one
  whose content was never set.
\<close>

theorem restore_createState_identity:
  "restore (createState e) e = e
   \<and> getContent (restore (createState e) e) = getContent e"
  by (simp add: restore_def createState_def setContent_def
      EditorState_new_def EditorState_getContent_def)

text \<open>
  C2, as the specification states it: on a history that holds no snapshot,
  \<^verbatim>\<open>pop()\<close> signals an explicit "history empty" condition and not a
  sentinel that a caller cannot tell from a stored value. The code signals
  nothing. \<^verbatim>\<open>pop()\<close> on the new, empty history returns normally, with the
  bare value \<^verbatim>\<open>undefined\<close>; on the history whose array holds the one entry
  \<^verbatim>\<open>undefined\<close>, which is not empty, it returns the same value and leaves
  the same history behind.
\<close>

theorem pop_empty_is_bare_sentinel:
  "pop EditorHistory_new = (None, EditorHistory_new)
   \<and> history \<lparr>history = [None]\<rparr> \<noteq> []
   \<and> pop \<lparr>history = [None]\<rparr> = pop EditorHistory_new"
  by (simp add: pop_def EditorHistory_new_def)

text \<open>
  C2, amended: on a history that holds no snapshot, \<^verbatim>\<open>pop()\<close> raises
  nothing: it returns \<^verbatim>\<open>undefined\<close> (\<open>None\<close>) and leaves the history
  empty. That value is no snapshot object, and it differs from what
  \<^verbatim>\<open>pop()\<close> returns right after a snapshot was pushed. The same happens
  once every pushed snapshot has been popped.
\<close>

theorem pop_empty_history:
  "history h = [] \<Longrightarrow>
     pop h = (None, h)
     \<and> fst (pop h) \<noteq> Some s
     \<and> fst (pop h) \<noteq> fst (pop (push s h'))
     \<and> fst (pop (snd (pops (length ss) (pushes ss h)))) = None"
proof -
  assume empty: "history h = []"
  then have absent: "pop h = (None, h)"
    by (simp add: pop_def)
  have stored: "fst (pop (push s h')) = Some s"
    by (simp add: pop_push_eq)
  have drained: "snd (pops (length ss) (pushes ss h)) = h"
    by (simp add: pops_pushes)
  show ?thesis
    by (simp add: absent stored drained)
qed

theorem pop_empty_history_witness:
  "history EditorHistory_new = []
   \<and> pop EditorHistory_new = (None, EditorHistory_new)
   \<and> fst (pop EditorHistory_new) \<noteq> Some (EditorState_new (Some ''Hello''))
   \<and> fst (pop EditorHistory_new)
       \<noteq> fst (pop (push (EditorState_new (Some ''Hello'')) EditorHistory_new))
   \<and> fst (pop (snd (pops (length [EditorState_new (Some ''Hello'')])
                       (pushes [EditorState_new (Some ''Hello'')] EditorHistory_new)))) = None"
proof -
  have empty: "history EditorHistory_new = []"
    by (simp add: EditorHistory_new_def)
  from conjI [OF empty pop_empty_history [OF empty]]
  show ?thesis .
qed

text \<open>
  C4. The history is a strict stack. \<^verbatim>\<open>push\<close> appends at the most recent
  end and keeps every earlier entry, whether or not an equal snapshot is stored
  already and however many are stored. \<^verbatim>\<open>pop\<close> on a history whose last
  entry is \<open>s\<close> returns \<open>s\<close> and removes exactly that entry, whatever
  the entry is. After any
  pushes, as many calls of \<^verbatim>\<open>pop()\<close> return the pushed snapshots in reverse
  order and leave the history as it was before them. After pushing the
  snapshots of \<^verbatim>\<open>"Hello"\<close>, \<^verbatim>\<open>"I am"\<close>, \<^verbatim>\<open>"Muhammad"\<close>, three calls
  return those of \<^verbatim>\<open>"Muhammad"\<close>, \<^verbatim>\<open>"I am"\<close>, \<^verbatim>\<open>"Hello"\<close>.
\<close>

theorem history_strict_lifo:
  "history (push s h) = history h @ [Some s]
   \<and> length (history (pushes ss h)) = length (history h) + length ss
   \<and> history (pushes ss h) = history h @ map Some ss
   \<and> pop (h\<lparr>history := hs @ [Some s]\<rparr>) = (Some s, h\<lparr>history := hs\<rparr>)
   \<and> pop (h\<lparr>history := hs @ [v]\<rparr>) = (v, h\<lparr>history := hs\<rparr>)
   \<and> pops (length ss) (pushes ss h) = (map Some (rev ss), h)
   \<and> map (map_option EditorState_getContent)
        (fst (pops 3
           (pushes [createState (setContent (Some ''Hello'') e),
                    createState (setContent (Some ''I am'') e),
                    createState (setContent (Some ''Muhammad'') e)] EditorHistory_new)))
      = [Some (Some ''Muhammad''), Some (Some ''I am''), Some (Some ''Hello'')]"
proof -
  have one: "history (push s h) = history h @ [Some s]"
    by (simp add: push_def)
  have top: "pop (h\<lparr>history := hs @ [u]\<rparr>) = (u, h\<lparr>history := hs\<rparr>)" for u
    by (simp add: pop_def)
  have three: "pops 3 (pushes [x, y, z] g) = ([Some z, Some y, Some x], g)" for x y z g
    by (simp add: numeral_3_eq_3 pop_push_eq)
  have demo: "map (map_option EditorState_getContent)
        (fst (pops 3
           (pushes [createState (setContent (Some ''Hello'') e),
                    createState (setContent (Some ''I am'') e),
                    createState (setContent (Some ''Muhammad'') e)] EditorHistory_new)))
      = [Some (Some ''Muhammad''), Some (Some ''I am''), Some (Some ''Hello'')]"
    unfolding three
    by (simp add: createState_def setContent_def EditorState_new_def
        EditorState_getContent_def)
  show ?thesis
    using one top demo by (simp add: history_pushes pops_pushes)
qed

text \<open>
  C10. Push then pop: on any history, \<^verbatim>\<open>push(s)\<close> followed at once by
  \<^verbatim>\<open>pop()\<close> returns \<open>s\<close> and leaves the history as it was before the push.
\<close>

theorem pop_after_push:
  "pop (push s h) = (Some s, h)
   \<and> history (snd (pop (push s h))) = history h"
  by (simp add: pop_push_eq)


section \<open>Properties of the canvas\<close>

lemma canvas_run_append:
  "canvas_run (ks @ ks') s =
     (case canvas_run ks s of Inl e \<Rightarrow> Inl e | Inr s' \<Rightarrow> canvas_run ks' s')"
  by (induction ks arbitrary: s) (simp_all split: sum.splits)

lemma canvas_run_SetTools:
  "canvas_run (map SetTool ts) (c, w) =
     Inr (c\<lparr>tool := (if ts = [] then tool c else Some (last ts))\<rparr>, w)"
  by (induction ts arbitrary: c) simp_all

lemma canvas_run_SetTools_then:
  "canvas_run (map SetTool ts @ SetTool t # ks) (c, w) = canvas_run ks (c\<lparr>tool := Some t\<rparr>, w)"
  by (simp add: canvas_run_append canvas_run_SetTools)

lemma StateTestImplementation_runImpl_output:
  "StateTestImplementation_runImpl out =
     Inr (\<lparr>tool = Some SelectionTool\<rparr>,
          out @ [''erasing from canvas'', ''eraser tool selected'',
                 ''draw box'', ''selection tool selected''])"
  by (simp add: StateTestImplementation_runImpl_def Canvas_new_def
      EraserTool_def SelectionTool_def)

text \<open>
  C1, as the specification states it: on a fresh canvas a pointer event fails
  with an explicit "no tool set" error and not with a null-reference fault. The
  code has no such error: \<^verbatim>\<open>this.tool.mouseDown()\<close> is evaluated with
  \<^verbatim>\<open>this.tool\<close> undefined, and the runtime raises \<^verbatim>\<open>TypeError\<close>.
\<close>

theorem mouseDown_fresh_canvas_not_explicit:
  "mouseDown (Canvas_new, [] :: console) \<noteq> Inl Spec_NoToolSet
   \<and> mouseDown (Canvas_new, [] :: console) = Inl TypeError"
  by (simp add: Canvas_new_def)

text \<open>
  C1, amended: on a freshly constructed canvas, on which \<^verbatim>\<open>setTool\<close> was
  never called, \<^verbatim>\<open>mouseDown()\<close> and \<^verbatim>\<open>mouseUp()\<close> both fail at once with
  the runtime's \<^verbatim>\<open>TypeError\<close> for a method call on \<^verbatim>\<open>undefined\<close>. Neither
  returns normally, so neither is a silent no-op, and the world is handed to no
  handler.
\<close>

theorem dispatch_fresh_canvas_TypeError:
  "mouseDown (Canvas_new, w) = Inl TypeError
   \<and> mouseUp (Canvas_new, w) = Inl TypeError
   \<and> canvas_run (MouseDown # ks) (Canvas_new, w) = Inl TypeError
   \<and> canvas_run (MouseUp # ks) (Canvas_new, w) = Inl TypeError"
  by (simp add: Canvas_new_def)

text \<open>
  C6. After any sequence of \<^verbatim>\<open>setTool\<close> calls, on any canvas, the next
  pointer event runs the handler of the tool set last, and of no other: the
  world after \<^verbatim>\<open>mouseDown()\<close> is what that tool's \<^verbatim>\<open>mouseDown\<close> makes of
  it, and likewise for \<^verbatim>\<open>mouseUp()\<close>. With the selection tool set and then
  the eraser, a press prints the eraser's line only.
\<close>

theorem dispatch_to_latest_tool:
  "canvas_run (map SetTool ts @ [SetTool t, MouseDown]) (c, w)
     = Inr (c\<lparr>tool := Some t\<rparr>, tool_mouseDown t w)
   \<and> canvas_run (map SetTool ts @ [SetTool t, MouseUp]) (c, w)
     = Inr (c\<lparr>tool := Some t\<rparr>, tool_mouseUp t w)
   \<and> canvas_run [SetTool SelectionTool, SetTool EraserTool, MouseDown] (Canvas_new, [])
     = Inr (\<lparr>tool = Some EraserTool\<rparr>, [''eraser tool selected''])"
proof -
  have down: "canvas_run (map SetTool ts @ [SetTool t, MouseDown]) (c, w)
     = Inr (c\<lparr>tool := Some t\<rparr>, tool_mouseDown t w)"
    by (simp add: canvas_run_SetTools_then)
  have up: "canvas_run (map SetTool ts @ [SetTool t, MouseUp]) (c, w)
     = Inr (c\<lparr>tool := Some t\<rparr>, tool_mouseUp t w)"
    by (simp add: canvas_run_SetTools_then)
  have eraser: "canvas_run [SetTool SelectionTool, SetTool EraserTool, MouseDown] (Canvas_new, [])
     = Inr (\<lparr>tool = Some EraserTool\<rparr>, [''eraser tool selected''])"
    by (simp add: Canvas_new_def EraserTool_def)
  from down up eraser show ?thesis
    by (intro conjI)
qed

text \<open>
  C7. \<^verbatim>\<open>setTool(X)\<close> never fails; it replaces the tool of the canvas by
  \<open>X\<close> and leaves the world as it was, so no handler of \<open>X\<close> or of the tool
  set before has run, whatever the handlers do. Setting the tool that is
  already active leaves canvas and world as they were. Any number of
  \<^verbatim>\<open>setTool\<close> calls leave the world as it was: only \<^verbatim>\<open>mouseDown()\<close> and
  \<^verbatim>\<open>mouseUp()\<close> run a handler.
\<close>

theorem setTool_only_replaces_tool:
  "setTool X (c, w) = Inr (c\<lparr>tool := Some X\<rparr>, w)
   \<and> setTool X (c\<lparr>tool := Some X\<rparr>, w) = Inr (c\<lparr>tool := Some X\<rparr>, w)
   \<and> map_sum id snd (canvas_run (map SetTool ts) (c, w)) = Inr w
   \<and> setTool EraserTool (\<lparr>tool = Some SelectionTool\<rparr>, out)
       = Inr (\<lparr>tool = Some EraserTool\<rparr>, out)"
  by (simp add: canvas_run_SetTools)

end
